theory Spec2Isabelle
  imports Main
begin

section \<open>The command pattern of \<open>src/behavioral/command.ts\<close>\<close>

subsection \<open>The world a method call runs in\<close>

text \<open>
  A method of the program mutates objects and writes lines with \<open>console.log\<close>. The
  world is the pair of the objects the commands act on (the heap, of any type \<open>'h\<close>)
  and the lines written so far, oldest first. A JavaScript string is a sequence of
  code units; it is modelled as a \<open>string\<close>, a list of characters.
\<close>

record 'h world =
  heap :: 'h
  console :: "string list"

definition console_log :: "string \<Rightarrow> 'h world \<Rightarrow> 'h world" where
  "console_log line w = w\<lparr>console := console w @ [line]\<rparr>"

text \<open>
  A method of return type \<open>void\<close> either returns or throws. A method that throws may
  have changed the world before, so the completion comes with the world it leaves.
  \<open>TypeError\<close> is what the runtime throws for a method call on \<open>undefined\<close>;
  \<open>Thrown x\<close> is a value thrown by a command.
\<close>

datatype 'x exn = TypeError | Thrown 'x

datatype 'x completion = Returned | Threw "'x exn"

subsection \<open>Library operations of strings and arrays\<close>

text \<open>
  \<open>s.slice(start, fin)\<close>: a negative position counts from the end, and every position
  is clamped to \<open>[0, length]\<close>.
\<close>

definition slice :: "int \<Rightarrow> int \<Rightarrow> 'a list \<Rightarrow> 'a list" where
  "slice start fin xs =
     (let len = int (length xs);
          from = (if start < 0 then max (len + start) 0 else min start len);
          to = (if fin < 0 then max (len + fin) 0 else min fin len)
      in take (nat (to - from)) (drop (nat from) xs))"

text \<open>
  \<open>a.splice(start)\<close> removes every element from position \<open>start\<close> to the end, with the
  same reading of a negative \<open>start\<close>; the result here is the array that remains.
\<close>

definition splice :: "int \<Rightarrow> 'a list \<Rightarrow> 'a list" where
  "splice start xs =
     (let len = int (length xs);
          from = (if start < 0 then max (len + start) 0 else min start len)
      in take (nat from) xs)"

definition push :: "'a \<Rightarrow> 'a list \<Rightarrow> 'a list" where
  "push x xs = xs @ [x]"

text \<open>\<open>a[i]\<close> is \<open>undefined\<close> (here \<open>None\<close>) outside the array.\<close>

definition array_get :: "'a list \<Rightarrow> int \<Rightarrow> 'a option" where
  "array_get xs i = (if 0 \<le> i \<and> i < int (length xs) then Some (xs ! nat i) else None)"

subsection \<open>The \<open>Command\<close> interface\<close>

record ('h, 'x) Command =
  execute :: "'h world \<Rightarrow> 'x completion \<times> 'h world"
  undo :: "'h world \<Rightarrow> 'x completion \<times> 'h world"

subsection \<open>The receiver: \<open>TextEditor\<close>\<close>

record TextEditor =
  TextEditor_text :: string

definition TextEditor_new :: TextEditor where
  "TextEditor_new = \<lparr>TextEditor_text = ''''\<rparr>"

definition TextEditor_type :: "string \<Rightarrow> TextEditor world \<Rightarrow> TextEditor world" where
  "TextEditor_type str w =
     (let w1 = w\<lparr>heap := (heap w)\<lparr>TextEditor_text := TextEditor_text (heap w) @ str\<rparr>\<rparr>
      in console_log (''Current Text: '' @ TextEditor_text (heap w1)) w1)"

definition TextEditor_delete :: "TextEditor world \<Rightarrow> TextEditor world" where
  "TextEditor_delete w =
     (let w1 = w\<lparr>heap := (heap w)\<lparr>TextEditor_text := slice 0 (- 1) (TextEditor_text (heap w))\<rparr>\<rparr>
      in console_log (''Current Text after delete: '' @ TextEditor_text (heap w1)) w1)"

definition TextEditor_getText :: "TextEditor world \<Rightarrow> string" where
  "TextEditor_getText w = TextEditor_text (heap w)"

subsection \<open>The concrete command: \<open>TypeCommand\<close>\<close>

definition TypeCommand_execute :: "string \<Rightarrow> TextEditor world \<Rightarrow> 'x completion \<times> TextEditor world" where
  "TypeCommand_execute str w = (Returned, TextEditor_type str w)"

text \<open>The loop \<open>for (let i = 0; i < this.text.length; i++) this.editor.delete()\<close>, from \<open>i\<close> on.\<close>

function TypeCommand_undo_loop :: "nat \<Rightarrow> string \<Rightarrow> TextEditor world \<Rightarrow> TextEditor world" where
  "TypeCommand_undo_loop i str w =
     (if i < length str then TypeCommand_undo_loop (i + 1) str (TextEditor_delete w) else w)"
  by pat_completeness auto
termination
  by (relation "measure (\<lambda>(i, str, w). length str - i)") auto

declare TypeCommand_undo_loop.simps [simp del]

definition TypeCommand_undo :: "string \<Rightarrow> TextEditor world \<Rightarrow> 'x completion \<times> TextEditor world" where
  "TypeCommand_undo str w = (Returned, TypeCommand_undo_loop 0 str w)"

text \<open>
  \<open>new TypeCommand(editor, str)\<close>, for the editor of the heap: the command object is the
  pair of its two methods, with the field \<open>text\<close> fixed at construction.
\<close>

definition TypeCommand :: "string \<Rightarrow> (TextEditor, 'x) Command" where
  "TypeCommand str = \<lparr>execute = TypeCommand_execute str, undo = TypeCommand_undo str\<rparr>"

subsection \<open>The invoker: \<open>CommandManager\<close>\<close>

record ('h, 'x) CommandManager =
  commands :: "('h, 'x) Command list"
  index :: int

definition CommandManager_new :: "('h, 'x) CommandManager" where
  "CommandManager_new = \<lparr>commands = [], index = - 1\<rparr>"

text \<open>
  A method of the manager takes the manager and the world and gives the completion, the
  manager and the world after the call. An exception of the command leaves the method
  at the place of the call, so the statements after it are not run.
\<close>

type_synonym ('h, 'x) outcome = "'x completion \<times> ('h, 'x) CommandManager \<times> 'h world"

definition completion_of :: "('h, 'x) outcome \<Rightarrow> 'x completion" where
  "completion_of r = fst r"

definition manager_of :: "('h, 'x) outcome \<Rightarrow> ('h, 'x) CommandManager" where
  "manager_of r = fst (snd r)"

definition world_of :: "('h, 'x) outcome \<Rightarrow> 'h world" where
  "world_of r = snd (snd r)"

definition executeCommand ::
  "('h, 'x) CommandManager \<Rightarrow> ('h, 'x) Command \<Rightarrow> 'h world \<Rightarrow> ('h, 'x) outcome" where
  "executeCommand m command w =
     (case execute command w of
        (Threw e, w1) \<Rightarrow> (Threw e, m, w1)
      | (Returned, w1) \<Rightarrow>
          (let m1 = m\<lparr>commands := splice (index m + 1) (commands m)\<rparr>;
               m2 = m1\<lparr>commands := push command (commands m1)\<rparr>;
               m3 = m2\<lparr>index := index m2 + 1\<rparr>
           in (Returned, m3, w1)))"

definition CommandManager_undo ::
  "('h, 'x) CommandManager \<Rightarrow> 'h world \<Rightarrow> ('h, 'x) outcome" where
  "CommandManager_undo m w =
     (if index m \<ge> 0 then
        (case array_get (commands m) (index m) of
           None \<Rightarrow> (Threw TypeError, m, w)
         | Some command \<Rightarrow>
             (case undo command w of
                (Threw e, w1) \<Rightarrow> (Threw e, m, w1)
              | (Returned, w1) \<Rightarrow> (Returned, m\<lparr>index := index m - 1\<rparr>, w1)))
      else (Returned, m, console_log ''No command to undo.'' w))"

definition CommandManager_redo ::
  "('h, 'x) CommandManager \<Rightarrow> 'h world \<Rightarrow> ('h, 'x) outcome" where
  "CommandManager_redo m w =
     (if index m + 1 < int (length (commands m)) then
        (let m1 = m\<lparr>index := index m + 1\<rparr>
         in case array_get (commands m1) (index m1) of
              None \<Rightarrow> (Threw TypeError, m1, w)
            | Some command \<Rightarrow>
                (case execute command w of
                   (Threw e, w1) \<Rightarrow> (Threw e, m1, w1)
                 | (Returned, w1) \<Rightarrow> (Returned, m1, w1)))
      else (Returned, m, console_log ''No command to redo.'' w))"

subsection \<open>Sequences of calls\<close>

text \<open>
  A host calls the three methods in any order. A call that throws leaves the manager and
  the world as they were at the throw, and the host goes on from there.
\<close>

datatype ('h, 'x) call = ExecuteCommand "('h, 'x) Command" | Undo | Redo

fun perform :: "('h, 'x) call \<Rightarrow> ('h, 'x) CommandManager \<Rightarrow> 'h world \<Rightarrow> ('h, 'x) outcome" where
  "perform (ExecuteCommand command) m w = executeCommand m command w"
| "perform Undo m w = CommandManager_undo m w"
| "perform Redo m w = CommandManager_redo m w"

fun perform_all ::
  "('h, 'x) call list \<Rightarrow> ('h, 'x) CommandManager \<times> 'h world \<Rightarrow> ('h, 'x) CommandManager \<times> 'h world" where
  "perform_all [] s = s"
| "perform_all (c # cs) s = perform_all cs (snd (perform c (fst s) (snd s)))"

text \<open>The client code: a new editor, a new manager, and the four calls of the script.\<close>

definition client_world :: "TextEditor world" where
  "client_world = \<lparr>heap = TextEditor_new, console = []\<rparr>"

definition client_calls :: "(TextEditor, 'x) call list" where
  "client_calls =
     [ExecuteCommand (TypeCommand ''Hello''), ExecuteCommand (TypeCommand '' World!''), Undo, Redo]"

subsection \<open>The cursor invariant\<close>

text \<open>The cursor is \<open>-1\<close> or the position of an entry of the record.\<close>

definition CommandManager_inv :: "('h, 'x) CommandManager \<Rightarrow> bool" where
  "CommandManager_inv m \<longleftrightarrow> - 1 \<le> index m \<and> index m < int (length (commands m))"

subsection \<open>Queries on the cursor\<close>

text \<open>
  Modelled from the spec: the query \<open>canUndo\<close> is not in the source, which has only the
  guard of \<open>undo\<close>. By the spec it is derived from \<open>index\<close>, and there is nothing to
  undo when \<open>index\<close> is \<open>-1\<close>.
\<close>

definition canUndo :: "('h, 'x) CommandManager \<Rightarrow> bool" where
  "canUndo m \<longleftrightarrow> index m \<noteq> - 1"

text \<open>
  Modelled from the spec: the query \<open>canRedo\<close> is not in the source, which has only the
  guard of \<open>redo\<close>. By the spec it is derived from \<open>index\<close> and the length of the
  record, and there is nothing to redo when \<open>index\<close> is the length minus one or the
  record is empty.
\<close>

definition canRedo :: "('h, 'x) CommandManager \<Rightarrow> bool" where
  "canRedo m \<longleftrightarrow> \<not> (index m = int (length (commands m)) - 1 \<or> commands m = [])"

subsection \<open>A command that throws\<close>

text \<open>
  \<open>TypeCommand\<close> never throws. The interface allows commands that do: \<open>one_shot\<close> sets a
  flag when it is executed, throws when the flag is already set, and its \<open>undo\<close> leaves
  the flag as it is.
\<close>

definition one_shot :: "(bool, unit) Command" where
  "one_shot =
     \<lparr>execute = (\<lambda>w. if heap w then (Threw (Thrown ()), w) else (Returned, w\<lparr>heap := True\<rparr>)),
      undo = (\<lambda>w. (Returned, w))\<rparr>"

definition unused :: "bool world" where
  "unused = \<lparr>heap = False, console = []\<rparr>"

section \<open>Facts about the library operations\<close>

lemma splice_take: "0 \<le> start \<Longrightarrow> splice start xs = take (nat start) xs"
  by (simp add: splice_def Let_def min_def)

lemma slice_butlast: "slice 0 (- 1) xs = butlast xs"
  by (simp add: slice_def Let_def butlast_conv_take max_def nat_diff_distrib')

lemma heap_console_log: "heap (console_log line w) = heap w"
  by (simp add: console_log_def)

section \<open>Facts about the editor and \<open>TypeCommand\<close>\<close>

lemma heap_TextEditor_type:
  "TextEditor_text (heap (TextEditor_type str w)) = TextEditor_text (heap w) @ str"
  by (simp add: TextEditor_type_def console_log_def Let_def)

lemma heap_TextEditor_delete:
  "TextEditor_text (heap (TextEditor_delete w)) = butlast (TextEditor_text (heap w))"
  by (simp add: TextEditor_delete_def console_log_def Let_def slice_butlast)

lemma heap_TypeCommand_undo_loop:
  "TextEditor_text (heap (TypeCommand_undo_loop i str w)) =
     take (length (TextEditor_text (heap w)) - (length str - i)) (TextEditor_text (heap w))"
proof (induction i str w rule: TypeCommand_undo_loop.induct)
  case (1 i str w)
  show ?case
  proof (cases "i < length str")
    case True
    then have "TextEditor_text (heap (TypeCommand_undo_loop i str w)) =
        TextEditor_text (heap (TypeCommand_undo_loop (i + 1) str (TextEditor_delete w)))"
      by (subst TypeCommand_undo_loop.simps) simp
    also have "\<dots> = take (length (butlast (TextEditor_text (heap w))) - (length str - (i + 1)))
        (butlast (TextEditor_text (heap w)))"
      using "1.IH" [OF True] by (simp add: heap_TextEditor_delete)
    also have "\<dots> = take (length (TextEditor_text (heap w)) - (length str - i)) (TextEditor_text (heap w))"
      using True by (simp add: butlast_conv_take min_def)
    finally show ?thesis .
  next
    case False
    then show ?thesis by (subst TypeCommand_undo_loop.simps) simp
  qed
qed

lemma execute_TypeCommand: "execute (TypeCommand str) w = (Returned, TextEditor_type str w)"
  by (simp add: TypeCommand_def TypeCommand_execute_def)

lemma undo_TypeCommand: "undo (TypeCommand str) w = (Returned, TypeCommand_undo_loop 0 str w)"
  by (simp add: TypeCommand_def TypeCommand_undo_def)

lemma undo_loop_text:
  "length str \<le> length (TextEditor_text (heap w)) \<Longrightarrow>
   TextEditor_text (heap (TypeCommand_undo_loop 0 str w)) =
     take (length (TextEditor_text (heap w)) - length str) (TextEditor_text (heap w))"
  by (simp add: heap_TypeCommand_undo_loop)

lemmas step_defs =
  executeCommand_def CommandManager_undo_def CommandManager_redo_def CommandManager_new_def
  splice_def push_def array_get_def Let_def execute_TypeCommand undo_TypeCommand

section \<open>The invariant holds in every state the manager reaches\<close>

lemma inv_new: "CommandManager_inv CommandManager_new"
  by (simp add: CommandManager_inv_def CommandManager_new_def)

lemma executeCommand_Returned:
  "execute command w = (Returned, w1) \<Longrightarrow>
   executeCommand m command w =
     (Returned, \<lparr>commands = splice (index m + 1) (commands m) @ [command], index = index m + 1\<rparr>, w1)"
  by (simp add: executeCommand_def push_def Let_def)

lemma executeCommand_Threw:
  "execute command w = (Threw e, w1) \<Longrightarrow> executeCommand m command w = (Threw e, m, w1)"
  by (simp add: executeCommand_def)

lemma inv_executeCommand:
  "CommandManager_inv m \<Longrightarrow> CommandManager_inv (manager_of (executeCommand m command w))"
  by (cases "execute command w"; cases "fst (execute command w)")
     (auto simp: executeCommand_def manager_of_def CommandManager_inv_def push_def splice_take Let_def)

lemma inv_undo:
  "CommandManager_inv m \<Longrightarrow> CommandManager_inv (manager_of (CommandManager_undo m w))"
  by (auto simp: CommandManager_undo_def manager_of_def CommandManager_inv_def
      split: option.splits prod.splits completion.splits)

lemma inv_redo:
  "CommandManager_inv m \<Longrightarrow> CommandManager_inv (manager_of (CommandManager_redo m w))"
  by (auto simp: CommandManager_redo_def manager_of_def CommandManager_inv_def Let_def
      split: option.splits prod.splits completion.splits)

lemma inv_perform:
  "CommandManager_inv m \<Longrightarrow> CommandManager_inv (manager_of (perform c m w))"
  by (cases c) (simp_all add: inv_executeCommand inv_undo inv_redo)

lemma inv_perform_all:
  "CommandManager_inv (fst s) \<Longrightarrow> CommandManager_inv (fst (perform_all cs s))"
proof (induction cs arbitrary: s)
  case Nil
  then show ?case by simp
next
  case (Cons c cs)
  have "CommandManager_inv (fst (snd (perform c (fst s) (snd s))))"
    using inv_perform [OF Cons.prems, of c "snd s"] by (simp add: manager_of_def)
  then show ?case using Cons.IH by simp
qed

lemma inv_reached:
  "fst (perform_all cs (CommandManager_new, w0)) = m \<Longrightarrow> CommandManager_inv m"
  using inv_perform_all [of "(CommandManager_new, w0)" cs] by (simp add: inv_new)

lemma array_get_inv:
  "CommandManager_inv m \<Longrightarrow> 0 \<le> index m \<Longrightarrow>
   array_get (commands m) (index m) = Some (commands m ! nat (index m))"
  by (simp add: array_get_def CommandManager_inv_def)

lemma CommandManager_undo_inv:
  assumes "CommandManager_inv m"
  shows "CommandManager_undo m w =
     (if index m = - 1 then (Returned, m, console_log ''No command to undo.'' w)
      else case undo (commands m ! nat (index m)) w of
             (Returned, w1) \<Rightarrow> (Returned, m\<lparr>index := index m - 1\<rparr>, w1)
           | (Threw e, w1) \<Rightarrow> (Threw e, m, w1))"
proof (cases "index m = - 1")
  case True
  then show ?thesis by (simp add: CommandManager_undo_def)
next
  case False
  with assms have "0 \<le> index m" by (simp add: CommandManager_inv_def)
  with assms False show ?thesis
    by (simp add: CommandManager_undo_def array_get_inv split: prod.splits completion.splits)
qed

lemma CommandManager_redo_inv:
  assumes "CommandManager_inv m" and "index m \<noteq> int (length (commands m)) - 1"
  shows "CommandManager_redo m w =
     (case execute (commands m ! nat (index m + 1)) w of
        (Returned, w1) \<Rightarrow> (Returned, m\<lparr>index := index m + 1\<rparr>, w1)
      | (Threw e, w1) \<Rightarrow> (Threw e, m\<lparr>index := index m + 1\<rparr>, w1))"
proof -
  from assms have lt: "index m + 1 < int (length (commands m))" and ge: "0 \<le> index m + 1"
    by (simp_all add: CommandManager_inv_def)
  then have "array_get (commands m) (index m + 1) = Some (commands m ! nat (index m + 1))"
    by (simp add: array_get_def)
  with lt show ?thesis
    by (simp add: CommandManager_redo_def Let_def split: prod.splits completion.splits)
qed

lemma CommandManager_redo_end:
  assumes "index m = int (length (commands m)) - 1"
  shows "CommandManager_redo m w = (Returned, m, console_log ''No command to redo.'' w)"
  using assms by (simp add: CommandManager_redo_def)

lemma perform_all_TypeCommands:
  "index m = int (length (commands m)) - 1 \<Longrightarrow>
   fst (perform_all (map (ExecuteCommand \<circ> TypeCommand) strs) (m, w)) =
     \<lparr>commands = commands m @ map TypeCommand strs, index = index m + int (length strs)\<rparr> \<and>
   TextEditor_text (heap (snd (perform_all (map (ExecuteCommand \<circ> TypeCommand) strs) (m, w)))) =
     TextEditor_text (heap w) @ concat strs"
proof (induction strs arbitrary: m w)
  case Nil
  then show ?case by simp
next
  case (Cons s strs)
  let ?m1 = "\<lparr>commands = commands m @ [TypeCommand s], index = index m + 1\<rparr>"
  have "splice (index m + 1) (commands m) = commands m"
    using Cons.prems by (simp add: splice_def)
  then have step: "executeCommand m (TypeCommand s) w = (Returned, ?m1, TextEditor_type s w)"
    using executeCommand_Returned [OF execute_TypeCommand, of m s w] by simp
  have "index ?m1 = int (length (commands ?m1)) - 1"
    using Cons.prems by simp
  from Cons.IH [OF this, of "TextEditor_type s w"] show ?case
    by (simp add: step heap_TextEditor_type)
qed

lemma one_shot_then_undo:
  "perform_all [ExecuteCommand one_shot, Undo] (CommandManager_new, unused) =
     (\<lparr>commands = [one_shot], index = - 1\<rparr>, \<lparr>heap = True, console = []\<rparr>)"
  by (simp add: step_defs one_shot_def unused_def)

lemma typed_ABC_undone_twice:
  "perform_all
     [ExecuteCommand (TypeCommand ''A''), ExecuteCommand (TypeCommand ''B''),
      ExecuteCommand (TypeCommand ''C''), Undo, Undo]
     (CommandManager_new, client_world) =
   (\<lparr>commands = [TypeCommand ''A'', TypeCommand ''B'', TypeCommand ''C''], index = 0\<rparr>,
    TypeCommand_undo_loop 0 ''B'' (TypeCommand_undo_loop 0 ''C''
      (TextEditor_type ''C'' (TextEditor_type ''B'' (TextEditor_type ''A'' client_world)))))"
  by (simp add: step_defs)

section \<open>\<open>executeCommand\<close>\<close>

text \<open>
  C1. In every state the manager reaches from a new manager by calls of its methods, and
  for every command whose \<open>execute\<close> returns, \<open>executeCommand\<close> keeps the entries of the
  record at the positions up to the cursor, which are \<open>index + 1\<close> entries, drops the
  entries after the cursor, appends the command, and adds one to \<open>index\<close>.
\<close>

theorem executeCommand_truncates_appends_increments:
  assumes "fst (perform_all calls (CommandManager_new, w0)) = m"
    and "execute command w = (Returned, w1)"
  shows "executeCommand m command w =
           (Returned,
            \<lparr>commands = take (nat (index m + 1)) (commands m) @ [command], index = index m + 1\<rparr>,
            w1)
         \<and> length (take (nat (index m + 1)) (commands m)) = nat (index m + 1)"
proof -
  have inv: "CommandManager_inv m" using assms(1) by (rule inv_reached)
  then have "0 \<le> index m + 1" by (simp add: CommandManager_inv_def)
  then have "splice (index m + 1) (commands m) = take (nat (index m + 1)) (commands m)"
    by (rule splice_take)
  moreover have "nat (index m + 1) \<le> length (commands m)"
    using inv unfolding CommandManager_inv_def by linarith
  ultimately show ?thesis
    using executeCommand_Returned [OF assms(2), of m] by simp
qed

text \<open>
  The theorem at work: after typing \<open>a\<close> and \<open>b\<close> and one undo, the cursor is at \<open>a\<close>;
  typing \<open>c\<close> drops \<open>b\<close> from the record.
\<close>

theorem executeCommand_truncates_appends_increments_witness:
  "executeCommand
     (fst (perform_all
        [ExecuteCommand (TypeCommand ''a''), ExecuteCommand (TypeCommand ''b''), Undo]
        (CommandManager_new, client_world)))
     (TypeCommand ''c'') client_world =
   (Returned,
    \<lparr>commands = [TypeCommand ''a'', TypeCommand ''c''], index = 1\<rparr> :: (TextEditor, unit) CommandManager,
    TextEditor_type ''c'' client_world)"
proof -
  have run: "fst (perform_all
        [ExecuteCommand (TypeCommand ''a''), ExecuteCommand (TypeCommand ''b''), Undo]
        (CommandManager_new, client_world)) =
      (\<lparr>commands = [TypeCommand ''a'', TypeCommand ''b''], index = 0\<rparr> :: (TextEditor, unit) CommandManager)"
    by (simp add: step_defs)
  have ex: "execute (TypeCommand ''c'' :: (TextEditor, unit) Command) client_world =
      (Returned, TextEditor_type ''c'' client_world)"
    by (simp add: TypeCommand_def TypeCommand_execute_def)
  show ?thesis
    unfolding run using executeCommand_truncates_appends_increments [OF run ex] by simp
qed

text \<open>
  C5. When the \<open>execute\<close> of the command throws, \<open>executeCommand\<close> throws the same
  exception and the manager after the call is the manager before it: the command is not
  recorded, and the record and \<open>index\<close> are unchanged. This holds in every state of
  the manager. The world is the one the command left when it threw.
\<close>

theorem executeCommand_failure_atomic:
  assumes "execute command w = (Threw e, w1)"
  shows "executeCommand m command w = (Threw e, m, w1)"
  using assms by (rule executeCommand_Threw)

text \<open>
  A second execution of \<open>one_shot\<close> throws, and the manager keeps its one entry.
\<close>

theorem executeCommand_failure_atomic_witness:
  "executeCommand \<lparr>commands = [one_shot], index = 0\<rparr> one_shot \<lparr>heap = True, console = []\<rparr> =
     (Threw (Thrown ()), \<lparr>commands = [one_shot], index = 0\<rparr>, \<lparr>heap = True, console = []\<rparr>)"
proof -
  have "execute one_shot \<lparr>heap = True, console = []\<rparr> =
      (Threw (Thrown ()), \<lparr>heap = True, console = []\<rparr>)"
    by (simp add: one_shot_def)
  then show ?thesis by (rule executeCommand_failure_atomic)
qed

text \<open>
  C8. In every state the manager reaches, when \<open>executeCommand\<close> returns, the cursor is at
  the last entry of the record: \<open>index\<close> is the length minus one, so \<open>canRedo\<close> is false
  and \<open>canUndo\<close> is true. In terms of the source, the guard of \<open>redo\<close> is false and the
  guard of \<open>undo\<close> is true.
\<close>

theorem execute_extends_history:
  assumes "fst (perform_all calls (CommandManager_new, w0)) = m"
    and "executeCommand m command w = (Returned, m1, w1)"
  shows "index m1 = int (length (commands m1)) - 1 \<and> \<not> canRedo m1 \<and> canUndo m1 \<and>
         \<not> index m1 + 1 < int (length (commands m1)) \<and> index m1 \<ge> 0"
proof -
  have inv: "CommandManager_inv m" using assms(1) by (rule inv_reached)
  obtain c w' where ex: "execute command w = (c, w')" by (cases "execute command w")
  with assms(2) have c: "c = Returned"
    by (cases c) (simp_all add: executeCommand_def)
  have "0 \<le> index m + 1" using inv by (simp add: CommandManager_inv_def)
  then have sp: "splice (index m + 1) (commands m) = take (nat (index m + 1)) (commands m)"
    by (rule splice_take)
  have le: "nat (index m + 1) \<le> length (commands m)"
    using inv unfolding CommandManager_inv_def by linarith
  have m1: "m1 = \<lparr>commands = take (nat (index m + 1)) (commands m) @ [command], index = index m + 1\<rparr>"
    using executeCommand_Returned [of command w w' m] ex c assms(2) sp by simp
  have "index m1 = int (length (commands m1)) - 1"
    using le inv by (simp add: m1 CommandManager_inv_def)
  moreover have "0 \<le> index m1" using inv by (simp add: m1 CommandManager_inv_def)
  ultimately show ?thesis by (simp add: canRedo_def canUndo_def)
qed

text \<open>
  After typing \<open>a\<close> and \<open>b\<close> and one undo, typing \<open>c\<close> leaves the cursor at \<open>c\<close>, the
  last of two entries.
\<close>

theorem execute_extends_history_witness:
  "index (\<lparr>commands = [TypeCommand ''a'', TypeCommand ''c''], index = 1\<rparr> :: (TextEditor, unit) CommandManager) = 1 \<and>
   \<not> canRedo (\<lparr>commands = [TypeCommand ''a'', TypeCommand ''c''], index = 1\<rparr> :: (TextEditor, unit) CommandManager) \<and>
   canUndo (\<lparr>commands = [TypeCommand ''a'', TypeCommand ''c''], index = 1\<rparr> :: (TextEditor, unit) CommandManager)"
proof -
  have run: "fst (perform_all
        [ExecuteCommand (TypeCommand ''a''), ExecuteCommand (TypeCommand ''b''), Undo]
        (CommandManager_new, client_world)) =
      (\<lparr>commands = [TypeCommand ''a'', TypeCommand ''b''], index = 0\<rparr> :: (TextEditor, unit) CommandManager)"
    by (simp add: step_defs)
  have ex: "executeCommand
      (\<lparr>commands = [TypeCommand ''a'', TypeCommand ''b''], index = 0\<rparr> :: (TextEditor, unit) CommandManager)
      (TypeCommand ''c'') client_world =
      (Returned, \<lparr>commands = [TypeCommand ''a'', TypeCommand ''c''], index = 1\<rparr>,
       TextEditor_type ''c'' client_world)"
    by (simp add: step_defs)
  show ?thesis
    using execute_extends_history [OF run ex] by simp
qed

section \<open>\<open>undo\<close>\<close>

text \<open>
  C2, as the source has it. In every state the manager reaches, \<open>undo\<close> with \<open>index\<close> at
  \<open>-1\<close> returns without an exception: it writes the line \<open>No command to undo.\<close> and
  changes neither the manager nor the heap. Otherwise it calls \<open>undo\<close> of the command at
  position \<open>index\<close>; when that returns, \<open>index\<close> is one less; when that throws, the
  exception reaches the caller and \<open>index\<close> is unchanged.
\<close>

theorem undo_reverts_then_decrements:
  assumes "fst (perform_all calls (CommandManager_new, w0)) = m"
  shows "CommandManager_undo m w =
     (if index m = - 1 then (Returned, m, console_log ''No command to undo.'' w)
      else case undo (commands m ! nat (index m)) w of
             (Returned, w1) \<Rightarrow> (Returned, m\<lparr>index := index m - 1\<rparr>, w1)
           | (Threw e, w1) \<Rightarrow> (Threw e, m, w1))"
  using assms by (intro CommandManager_undo_inv inv_reached)

text \<open>
  With the cursor at \<open>b\<close>, \<open>undo\<close> runs the loop of deletions of \<open>b\<close> and moves the
  cursor to \<open>a\<close>.
\<close>

theorem undo_reverts_then_decrements_witness:
  "CommandManager_undo
     (\<lparr>commands = [TypeCommand ''a'', TypeCommand ''b''], index = 1\<rparr> :: (TextEditor, unit) CommandManager)
     client_world =
   (Returned, \<lparr>commands = [TypeCommand ''a'', TypeCommand ''b''], index = 0\<rparr>,
    TypeCommand_undo_loop 0 ''b'' client_world)"
proof -
  have run: "fst (perform_all [ExecuteCommand (TypeCommand ''a''), ExecuteCommand (TypeCommand ''b'')]
        (CommandManager_new, client_world)) =
      (\<lparr>commands = [TypeCommand ''a'', TypeCommand ''b''], index = 1\<rparr> :: (TextEditor, unit) CommandManager)"
    by (simp add: step_defs)
  show ?thesis
    using undo_reverts_then_decrements [OF run, of client_world] by (simp add: undo_TypeCommand)
qed

text \<open>
  C2 as the specification states it asks for a failure when \<open>index\<close> is \<open>-1\<close>. On a new
  manager \<open>undo\<close> returns, having written one line.
\<close>

theorem undo_at_start_counterexample:
  "index (CommandManager_new :: (TextEditor, unit) CommandManager) = - 1 \<and>
   CommandManager_undo (CommandManager_new :: (TextEditor, unit) CommandManager) client_world =
     (Returned, CommandManager_new, console_log ''No command to undo.'' client_world)"
  by (simp add: CommandManager_undo_def CommandManager_new_def)

section \<open>\<open>redo\<close>\<close>

text \<open>
  C3, as the source has it. In every state the manager reaches, \<open>redo\<close> with \<open>index\<close> at
  the length minus one (the empty record included) returns without an exception: it
  writes the line \<open>No command to redo.\<close> and changes neither the manager nor the heap.
  Otherwise it adds one to \<open>index\<close> and calls \<open>execute\<close> of the command now at position
  \<open>index\<close>; when that returns, \<open>redo\<close> returns with \<open>index\<close> one more than before; when
  that throws, the exception reaches the caller, with the world the command left.
\<close>

theorem redo_increments_then_executes:
  assumes "fst (perform_all calls (CommandManager_new, w0)) = m"
  shows "if index m = int (length (commands m)) - 1
         then CommandManager_redo m w = (Returned, m, console_log ''No command to redo.'' w)
         else (case execute (commands m ! nat (index m + 1)) w of
                 (Returned, w1) \<Rightarrow>
                   CommandManager_redo m w = (Returned, m\<lparr>index := index m + 1\<rparr>, w1)
               | (Threw e, w1) \<Rightarrow>
                   completion_of (CommandManager_redo m w) = Threw e \<and>
                   world_of (CommandManager_redo m w) = w1)"
proof -
  have inv: "CommandManager_inv m" using assms by (rule inv_reached)
  show ?thesis
  proof (cases "index m = int (length (commands m)) - 1")
    case True
    then show ?thesis using CommandManager_redo_end [OF True] by simp
  next
    case False
    then show ?thesis using CommandManager_redo_inv [OF inv False, of w]
      by (simp add: completion_of_def world_of_def split: prod.splits completion.splits)
  qed
qed

text \<open>
  With the cursor at \<open>a\<close> and \<open>b\<close> after it, \<open>redo\<close> types \<open>b\<close> again and moves the
  cursor to \<open>b\<close>.
\<close>

theorem redo_increments_then_executes_witness:
  "CommandManager_redo
     (\<lparr>commands = [TypeCommand ''a'', TypeCommand ''b''], index = 0\<rparr> :: (TextEditor, unit) CommandManager)
     client_world =
   (Returned, \<lparr>commands = [TypeCommand ''a'', TypeCommand ''b''], index = 1\<rparr>,
    TextEditor_type ''b'' client_world)"
proof -
  have run: "fst (perform_all
        [ExecuteCommand (TypeCommand ''a''), ExecuteCommand (TypeCommand ''b''), Undo]
        (CommandManager_new, client_world)) =
      (\<lparr>commands = [TypeCommand ''a'', TypeCommand ''b''], index = 0\<rparr> :: (TextEditor, unit) CommandManager)"
    by (simp add: step_defs)
  show ?thesis
    using redo_increments_then_executes [OF run, of client_world] by (simp add: execute_TypeCommand)
qed

text \<open>
  C3 as the specification states it fails twice. On a new manager \<open>redo\<close> returns instead
  of failing. And after \<open>one_shot\<close> was executed and undone, \<open>index\<close> is \<open>-1\<close>; the
  \<open>redo\<close> then throws, because the second execution of \<open>one_shot\<close> does, and \<open>index\<close>
  is \<open>0\<close> afterwards: it was incremented before the call and is not set back.
\<close>

theorem redo_counterexample:
  "completion_of (CommandManager_redo (CommandManager_new :: (bool, unit) CommandManager) unused)
     = Returned \<and>
   index (fst (perform_all [ExecuteCommand one_shot, Undo] (CommandManager_new, unused))) = - 1 \<and>
   completion_of
     (CommandManager_redo
        (fst (perform_all [ExecuteCommand one_shot, Undo] (CommandManager_new, unused)))
        (snd (perform_all [ExecuteCommand one_shot, Undo] (CommandManager_new, unused))))
     = Threw (Thrown ()) \<and>
   index (manager_of
     (CommandManager_redo
        (fst (perform_all [ExecuteCommand one_shot, Undo] (CommandManager_new, unused)))
        (snd (perform_all [ExecuteCommand one_shot, Undo] (CommandManager_new, unused)))))
     = 0"
  unfolding one_shot_then_undo
  by (simp add: CommandManager_redo_def CommandManager_new_def array_get_def one_shot_def
      completion_of_def manager_of_def Let_def)

section \<open>The record has no bound\<close>

text \<open>
  C4, as the source has it. The manager has no capacity: when three commands \<open>A\<close>,
  \<open>B\<close>, \<open>C\<close> are executed on a new manager and each returns, the record is
  \<open>[A, B, C]\<close> with \<open>index\<close> at \<open>2\<close>, nothing is evicted; three calls of \<open>undo\<close> then
  revert \<open>C\<close>, \<open>B\<close> and \<open>A\<close> (when the three reversals return) and leave \<open>index\<close> at
  \<open>-1\<close>; a fourth \<open>undo\<close> returns and only writes \<open>No command to undo.\<close>
\<close>

theorem history_is_unbounded:
  assumes "execute A w0 = (Returned, w1)"
    and "execute B w1 = (Returned, w2)"
    and "execute C w2 = (Returned, w3)"
    and "undo C w3 = (Returned, w4)"
    and "undo B w4 = (Returned, w5)"
    and "undo A w5 = (Returned, w6)"
  shows "perform_all [ExecuteCommand A, ExecuteCommand B, ExecuteCommand C] (CommandManager_new, w0) =
           (\<lparr>commands = [A, B, C], index = 2\<rparr>, w3) \<and>
         CommandManager_undo \<lparr>commands = [A, B, C], index = 2\<rparr> w3 =
           (Returned, \<lparr>commands = [A, B, C], index = 1\<rparr>, w4) \<and>
         CommandManager_undo \<lparr>commands = [A, B, C], index = 1\<rparr> w4 =
           (Returned, \<lparr>commands = [A, B, C], index = 0\<rparr>, w5) \<and>
         CommandManager_undo \<lparr>commands = [A, B, C], index = 0\<rparr> w5 =
           (Returned, \<lparr>commands = [A, B, C], index = - 1\<rparr>, w6) \<and>
         CommandManager_undo \<lparr>commands = [A, B, C], index = - 1\<rparr> w6 =
           (Returned, \<lparr>commands = [A, B, C], index = - 1\<rparr>, console_log ''No command to undo.'' w6)"
proof -
  have e: "perform_all [ExecuteCommand A, ExecuteCommand B, ExecuteCommand C] (CommandManager_new, w0) =
           (\<lparr>commands = [A, B, C], index = 2\<rparr>, w3)"
    by (simp add: executeCommand_def CommandManager_new_def splice_def push_def Let_def assms)
  have u1: "CommandManager_undo \<lparr>commands = [A, B, C], index = 2\<rparr> w3 =
           (Returned, \<lparr>commands = [A, B, C], index = 1\<rparr>, w4)"
    by (simp add: CommandManager_undo_def array_get_def assms)
  have u2: "CommandManager_undo \<lparr>commands = [A, B, C], index = 1\<rparr> w4 =
           (Returned, \<lparr>commands = [A, B, C], index = 0\<rparr>, w5)"
    by (simp add: CommandManager_undo_def array_get_def assms)
  have u3: "CommandManager_undo \<lparr>commands = [A, B, C], index = 0\<rparr> w5 =
           (Returned, \<lparr>commands = [A, B, C], index = - 1\<rparr>, w6)"
    by (simp add: CommandManager_undo_def array_get_def assms)
  have u4: "CommandManager_undo \<lparr>commands = [A, B, C], index = - 1\<rparr> w6 =
           (Returned, \<lparr>commands = [A, B, C], index = - 1\<rparr>, console_log ''No command to undo.'' w6)"
    by (simp add: CommandManager_undo_def)
  from e u1 u2 u3 u4 show ?thesis by (intro conjI)
qed

text \<open>
  The three commands that type \<open>A\<close>, \<open>B\<close> and \<open>C\<close> into the editor of the client.
\<close>

theorem history_is_unbounded_witness:
  "perform_all
     [ExecuteCommand (TypeCommand ''A''), ExecuteCommand (TypeCommand ''B''),
      ExecuteCommand (TypeCommand ''C'')]
     (CommandManager_new :: (TextEditor, unit) CommandManager, client_world) =
   (\<lparr>commands = [TypeCommand ''A'', TypeCommand ''B'', TypeCommand ''C''], index = 2\<rparr>,
    TextEditor_type ''C'' (TextEditor_type ''B'' (TextEditor_type ''A'' client_world)))"
  using history_is_unbounded
    [OF execute_TypeCommand [of "''A''" client_world]
        execute_TypeCommand [of "''B''"]
        execute_TypeCommand [of "''C''"]
        undo_TypeCommand [of "''C''"]
        undo_TypeCommand [of "''B''"]
        undo_TypeCommand [of "''A''"]]
  by (rule conjunct1)

text \<open>
  C4 as the specification states it: with a capacity of two, the record would be
  \<open>{B, C}\<close> and the third \<open>undo\<close> would fail. In the source the record holds the three
  commands; after two calls of \<open>undo\<close> the cursor is at \<open>A\<close> and the text is \<open>A\<close>; the
  third \<open>undo\<close> returns and the text is empty.
\<close>

theorem no_eviction_counterexample:
  "commands (fst (perform_all
      [ExecuteCommand (TypeCommand ''A''), ExecuteCommand (TypeCommand ''B''),
       ExecuteCommand (TypeCommand ''C'')]
      (CommandManager_new :: (TextEditor, unit) CommandManager, client_world))) =
     [TypeCommand ''A'', TypeCommand ''B'', TypeCommand ''C''] \<and>
   index (fst (perform_all
      [ExecuteCommand (TypeCommand ''A''), ExecuteCommand (TypeCommand ''B''),
       ExecuteCommand (TypeCommand ''C''), Undo, Undo]
      (CommandManager_new :: (TextEditor, unit) CommandManager, client_world))) = 0 \<and>
   TextEditor_getText (snd (perform_all
      [ExecuteCommand (TypeCommand ''A''), ExecuteCommand (TypeCommand ''B''),
       ExecuteCommand (TypeCommand ''C''), Undo, Undo]
      (CommandManager_new :: (TextEditor, unit) CommandManager, client_world))) = ''A'' \<and>
   completion_of (CommandManager_undo
     (fst (perform_all
        [ExecuteCommand (TypeCommand ''A''), ExecuteCommand (TypeCommand ''B''),
         ExecuteCommand (TypeCommand ''C''), Undo, Undo]
        (CommandManager_new :: (TextEditor, unit) CommandManager, client_world)))
     (snd (perform_all
        [ExecuteCommand (TypeCommand ''A''), ExecuteCommand (TypeCommand ''B''),
         ExecuteCommand (TypeCommand ''C''), Undo, Undo]
        (CommandManager_new :: (TextEditor, unit) CommandManager, client_world)))) = Returned \<and>
   TextEditor_getText (world_of (CommandManager_undo
     (fst (perform_all
        [ExecuteCommand (TypeCommand ''A''), ExecuteCommand (TypeCommand ''B''),
         ExecuteCommand (TypeCommand ''C''), Undo, Undo]
        (CommandManager_new :: (TextEditor, unit) CommandManager, client_world)))
     (snd (perform_all
        [ExecuteCommand (TypeCommand ''A''), ExecuteCommand (TypeCommand ''B''),
         ExecuteCommand (TypeCommand ''C''), Undo, Undo]
        (CommandManager_new :: (TextEditor, unit) CommandManager, client_world))))) = []"
proof -
  have three: "perform_all
      [ExecuteCommand (TypeCommand ''A''), ExecuteCommand (TypeCommand ''B''),
       ExecuteCommand (TypeCommand ''C'')]
      (CommandManager_new :: (TextEditor, unit) CommandManager, client_world) =
     (\<lparr>commands = [TypeCommand ''A'', TypeCommand ''B'', TypeCommand ''C''], index = 2\<rparr>,
      TextEditor_type ''C'' (TextEditor_type ''B'' (TextEditor_type ''A'' client_world)))"
    by (simp add: step_defs)
  have third: "CommandManager_undo
      (\<lparr>commands = [TypeCommand ''A'', TypeCommand ''B'', TypeCommand ''C''], index = 0\<rparr>
        :: (TextEditor, unit) CommandManager) w =
      (Returned, \<lparr>commands = [TypeCommand ''A'', TypeCommand ''B'', TypeCommand ''C''], index = - 1\<rparr>,
       TypeCommand_undo_loop 0 ''A'' w)" for w
    by (simp add: step_defs)
  have text0: "TextEditor_text (heap client_world) = []"
    by (simp add: client_world_def TextEditor_new_def)
  show ?thesis
    unfolding three typed_ABC_undone_twice
    by (simp add: third completion_of_def world_of_def TextEditor_getText_def
        heap_TypeCommand_undo_loop heap_TextEditor_type text0)
qed

section \<open>The cursor stays in range\<close>

text \<open>
  C6. After any sequence of calls of \<open>executeCommand\<close>, \<open>undo\<close> and \<open>redo\<close> on a new
  manager, whether the calls return or throw, \<open>index\<close> lies between \<open>-1\<close> and the length
  of the record minus one.
\<close>

theorem index_in_range:
  "- 1 \<le> index (fst (perform_all calls (CommandManager_new, w0))) \<and>
   index (fst (perform_all calls (CommandManager_new, w0)))
     \<le> int (length (commands (fst (perform_all calls (CommandManager_new, w0))))) - 1"
  using inv_reached [OF refl, of calls w0] by (simp add: CommandManager_inv_def)

section \<open>Undo followed by redo\<close>

text \<open>
  C7. After any sequence of \<open>TypeCommand\<close>s executed on a new manager, from any state of
  the editor, \<open>undo\<close> followed by \<open>redo\<close> returns twice and leaves the editor with the text
  it had before the \<open>undo\<close>, code unit for code unit. For the empty sequence both calls
  only write a line.
\<close>

theorem undo_then_redo_restores_text:
  "case perform_all (map (ExecuteCommand \<circ> TypeCommand) strs) (CommandManager_new, w0) of
     (m, w) \<Rightarrow>
       (case CommandManager_undo m w of
          (c1, m1, w1) \<Rightarrow>
            (case CommandManager_redo m1 w1 of
               (c2, m2, w2) \<Rightarrow> c1 = Returned \<and> c2 = Returned \<and> heap w2 = heap w))"
  (is "case ?run of (m, w) \<Rightarrow> ?P m w")
proof -
  obtain m w where run: "?run = (m, w)"
    by (cases ?run)
  have "fst ?run = \<lparr>commands = map TypeCommand strs, index = int (length strs) - 1\<rparr> \<and>
      TextEditor_text (heap (snd ?run)) = TextEditor_text (heap w0) @ concat strs"
    using perform_all_TypeCommands [of CommandManager_new strs w0]
    by (simp add: CommandManager_new_def)
  with run
  have m: "m = \<lparr>commands = map TypeCommand strs, index = int (length strs) - 1\<rparr>"
    and w: "TextEditor_text (heap w) = TextEditor_text (heap w0) @ concat strs"
    by (simp_all add: CommandManager_new_def)
  show ?thesis
  proof (cases strs rule: rev_cases)
    case Nil
    have u: "CommandManager_undo m w = (Returned, m, console_log ''No command to undo.'' w)"
      by (simp add: m Nil CommandManager_undo_def)
    have r: "CommandManager_redo m (console_log ''No command to undo.'' w) =
        (Returned, m, console_log ''No command to redo.'' (console_log ''No command to undo.'' w))"
      by (simp add: m Nil CommandManager_redo_def)
    show ?thesis
      by (simp add: run u r heap_console_log)
  next
    case (snoc strs' s)
    have u: "CommandManager_undo m w =
        (Returned, m\<lparr>index := int (length strs') - 1\<rparr>, TypeCommand_undo_loop 0 s w)"
      by (simp add: m snoc CommandManager_undo_def array_get_def nth_append undo_TypeCommand)
    have r: "CommandManager_redo (m\<lparr>index := int (length strs') - 1\<rparr>) (TypeCommand_undo_loop 0 s w) =
        (Returned, m, TextEditor_type s (TypeCommand_undo_loop 0 s w))"
      by (simp add: m snoc CommandManager_redo_def array_get_def nth_append execute_TypeCommand Let_def)
    have "TextEditor_text (heap (TextEditor_type s (TypeCommand_undo_loop 0 s w))) = TextEditor_text (heap w)"
      by (simp add: heap_TextEditor_type heap_TypeCommand_undo_loop w snoc)
    then have "heap (TextEditor_type s (TypeCommand_undo_loop 0 s w)) = heap w"
      by simp
    then show ?thesis
      by (simp add: run u r)
  qed
qed

section \<open>The client code\<close>

text \<open>
  C9. From an empty editor, the text is \<open>Hello\<close> after the first call of the client,
  \<open>Hello World!\<close> after the second, \<open>Hello\<close> after the \<open>undo\<close> and \<open>Hello World!\<close> after
  the \<open>redo\<close>.
\<close>

theorem client_scenario:
  "TextEditor_getText (snd (perform_all (take 1 client_calls) (CommandManager_new, client_world)))
     = ''Hello'' \<and>
   TextEditor_getText (snd (perform_all (take 2 client_calls) (CommandManager_new, client_world)))
     = ''Hello World!'' \<and>
   TextEditor_getText (snd (perform_all (take 3 client_calls) (CommandManager_new, client_world)))
     = ''Hello'' \<and>
   TextEditor_getText (snd (perform_all (take 4 client_calls) (CommandManager_new, client_world)))
     = ''Hello World!''"
proof -
  define w1 where "w1 = TextEditor_type ''Hello'' client_world"
  define w2 where "w2 = TextEditor_type '' World!'' w1"
  define w3 where "w3 = TypeCommand_undo_loop 0 '' World!'' w2"
  define w4 where "w4 = TextEditor_type '' World!'' w3"
  have e1: "executeCommand CommandManager_new (TypeCommand ''Hello'') client_world =
      (Returned, \<lparr>commands = [TypeCommand ''Hello''], index = 0\<rparr>, w1)"
    by (simp add: executeCommand_def execute_TypeCommand CommandManager_new_def splice_def
        push_def Let_def w1_def)
  have e2: "executeCommand \<lparr>commands = [TypeCommand ''Hello''], index = 0\<rparr> (TypeCommand '' World!'') w1 =
      (Returned, \<lparr>commands = [TypeCommand ''Hello'', TypeCommand '' World!''], index = 1\<rparr>, w2)"
    by (simp add: executeCommand_def execute_TypeCommand splice_def push_def Let_def w2_def)
  have u: "CommandManager_undo \<lparr>commands = [TypeCommand ''Hello'', TypeCommand '' World!''], index = 1\<rparr> w2 =
      (Returned, \<lparr>commands = [TypeCommand ''Hello'', TypeCommand '' World!''], index = 0\<rparr>, w3)"
    by (simp add: CommandManager_undo_def array_get_def undo_TypeCommand w3_def)
  have r: "CommandManager_redo \<lparr>commands = [TypeCommand ''Hello'', TypeCommand '' World!''], index = 0\<rparr> w3 =
      (Returned, \<lparr>commands = [TypeCommand ''Hello'', TypeCommand '' World!''], index = 1\<rparr>, w4)"
    by (simp add: CommandManager_redo_def array_get_def execute_TypeCommand w4_def Let_def)
  have t1: "TextEditor_text (heap w1) = ''Hello''"
    by (simp add: w1_def heap_TextEditor_type client_world_def TextEditor_new_def)
  have t2: "TextEditor_text (heap w2) = ''Hello World!''"
    by (simp add: w2_def heap_TextEditor_type t1)
  have t3: "TextEditor_text (heap w3) = ''Hello''"
    unfolding w3_def by (subst undo_loop_text) (simp_all add: t2)
  have t4: "TextEditor_text (heap w4) = ''Hello World!''"
    by (simp add: w4_def heap_TextEditor_type t3)
  show ?thesis
    by (simp add: client_calls_def TextEditor_getText_def e1 e2 u r t1 t2 t3 t4)
qed

section \<open>\<open>undo\<close> and \<open>redo\<close> leave the record alone\<close>

text \<open>
  C10. Neither \<open>undo\<close> nor \<open>redo\<close> changes the record: the sequence of commands after the
  call is the sequence before it, in every state and whatever the command does.
\<close>

theorem undo_redo_keep_record:
  "commands (manager_of (CommandManager_undo m w)) = commands m \<and>
   commands (manager_of (CommandManager_redo m w)) = commands m"
  by (simp add: CommandManager_undo_def CommandManager_redo_def manager_of_def Let_def
      split: option.splits prod.splits completion.splits)

end
